theory Spec2Isabelle
  imports Main "HOL-Library.AList" "HOL-Library.Sublist" "HOL-Library.Multiset"
begin

section \<open>Data model\<close>

text \<open>
  The records of \<^verbatim>\<open>utils.py\<close> are Python dictionaries with a fixed set of keys, built by
  \<^verbatim>\<open>create_character\<close>, \<^verbatim>\<open>create_story_arc\<close>, \<^verbatim>\<open>create_milestone\<close> and, for dialogue scenes,
  by the form handler of \<^verbatim>\<open>app.py\<close>. Each becomes a record with one field per key, in the
  order of the dictionary literal. Python's unbounded \<^verbatim>\<open>int\<close> is \<^typ>\<open>int\<close>; a \<^verbatim>\<open>str\<close> is a
  \<^typ>\<open>string\<close>, one \<^typ>\<open>char\<close> per code point (so code points below 256);
  \<^verbatim>\<open>Optional[str]\<close> is \<^typ>\<open>string option\<close>.
\<close>

record character =
  name :: string
  role :: string
  age :: int
  personality :: string
  background :: string
  goals :: string
  created_at :: string

record story_arc =
  name :: string
  description :: string
  start_chapter :: int
  end_chapter :: int
  themes :: string
  characters :: "string list"
  created_at :: string

record milestone =
  name :: string
  description :: string
  "chapter" :: int
  type :: string
  impact :: string
  related_arc :: "string option"
  created_at :: string

record dialogue_scene =
  name :: string
  "chapter" :: int
  characters :: "string list"
  dialogue :: string
  branches :: "string list"

text \<open>The exceptions the modelled code could raise.\<close>

datatype py_error = ValueError | IndexError

section \<open>Python built-ins used by the code\<close>

text \<open>\<^verbatim>\<open>str(n)\<close> and \<^verbatim>\<open>f"{n}"\<close> for an integer: decimal digits, a minus sign when negative.\<close>

definition digit_char :: "nat \<Rightarrow> char" where
  "digit_char d = ''0123456789'' ! d"

fun str_nat :: "nat \<Rightarrow> string" where
  "str_nat n = (if n < 10 then [digit_char n] else str_nat (n div 10) @ [digit_char (n mod 10)])"

declare str_nat.simps [simp del]

definition str_int :: "int \<Rightarrow> string" where
  "str_int i = (if i < 0 then CHR ''-'' # str_nat (nat (- i)) else str_nat (nat i))"

text \<open>\<^verbatim>\<open>sep.join(xs)\<close>.\<close>

fun join :: "string \<Rightarrow> string list \<Rightarrow> string" where
  "join sep [] = []"
| "join sep [x] = x"
| "join sep (x # y # ys) = x @ sep @ join sep (y # ys)"

text \<open>
  \<^verbatim>\<open>max(iterable)\<close>: raises \<^verbatim>\<open>ValueError\<close> on an empty iterable, otherwise scans from the
  left keeping the larger element.
\<close>

fun py_max :: "int list \<Rightarrow> py_error + int" where
  "py_max [] = Inl ValueError"
| "py_max (x # xs) = Inr (foldl max x xs)"

text \<open>\<^verbatim>\<open>xs[i]\<close> for a non-negative index: raises \<^verbatim>\<open>IndexError\<close> out of range.\<close>

definition py_index :: "'a list \<Rightarrow> nat \<Rightarrow> py_error + 'a" where
  "py_index xs i = (if i < length xs then Inr (xs ! i) else Inl IndexError)"

text \<open>\<^verbatim>\<open>range(n)\<close> for an integer \<^verbatim>\<open>n\<close>: empty when \<^verbatim>\<open>n \<le> 0\<close>.\<close>

definition py_range :: "int \<Rightarrow> nat list" where
  "py_range n = [0..<nat n]"

text \<open>\<^verbatim>\<open>range(lo, hi)\<close>: the integers from \<open>lo\<close> up to, not including, \<open>hi\<close>.\<close>

definition py_range_from :: "int \<Rightarrow> int \<Rightarrow> int list" where
  "py_range_from lo hi = [lo..hi - 1]"

text \<open>\<^verbatim>\<open>needle in haystack\<close> on strings: the needle occurs as a contiguous block.\<close>

fun str_contains :: "string \<Rightarrow> string \<Rightarrow> bool" where
  "str_contains needle [] = (needle = [])"
| "str_contains needle (c # cs) = (prefix needle (c # cs) \<or> str_contains needle cs)"

section \<open>Dialogue options\<close>

text \<open>
  \<^verbatim>\<open>generate_dialogue_options\<close>. \<^verbatim>\<open>str.lower\<close> follows the Unicode case tables of the
  interpreter, which are not part of the repository: it is the parameter \<open>lower\<close>.
  \<^verbatim>\<open>base_options\<close> is a local list, extended in place by \<^verbatim>\<open>append\<close>; the slice
  \<^verbatim>\<open>[:4]\<close> is \<^term>\<open>take 4\<close>.
\<close>

definition generate_dialogue_options ::
  "(string \<Rightarrow> string) \<Rightarrow> string \<Rightarrow> string \<Rightarrow> string \<Rightarrow> string list" where
  "generate_dialogue_options lower character_name situation personality_traits =
    (let base_options =
           [''What should we do about '' @ situation @ ''?'',
            ''I think we need to consider our options here.'',
            ''This reminds me of something that happened before.'',
            ''Let's approach this carefully.''];
         base_options =
           (if str_contains ''confident'' (lower personality_traits)
            then base_options @ [''I know exactly what to do in this situation!'']
            else base_options);
         base_options =
           (if str_contains ''shy'' (lower personality_traits)
            then base_options @ [''Um... maybe we should think about this more?'']
            else base_options);
         base_options =
           (if str_contains ''aggressive'' (lower personality_traits)
            then base_options @ [''We need to take action now!'']
            else base_options)
     in take 4 base_options)"

section \<open>Story analysis\<close>

text \<open>
  The dictionary returned by \<^verbatim>\<open>analyze_story_structure\<close>. \<^verbatim>\<open>character_roles\<close> is a
  dictionary from role to count; the association list keeps Python's insertion order.
\<close>

record analysis =
  character_count :: nat
  arc_count :: nat
  milestone_count :: nat
  estimated_length :: int
  character_roles :: "(string \<times> nat) list"
  pacing_analysis :: "string list"

text \<open>\<^verbatim>\<open>roles[role] = roles.get(role, 0) + 1\<close>.\<close>

definition count_role :: "(string \<times> nat) list \<Rightarrow> character \<Rightarrow> (string \<times> nat) list" where
  "count_role roles char =
    AList.update (role char) ((case map_of roles (role char) of None \<Rightarrow> 0 | Some n \<Rightarrow> n) + 1) roles"

text \<open>The message of one pacing gap.\<close>

definition gap_message :: "int \<Rightarrow> int \<Rightarrow> string" where
  "gap_message a b = ''Large gap between chapters '' @ str_int a @ '' and '' @ str_int b"

text \<open>
  The loop \<^verbatim>\<open>for i in range(len(milestone_chapters) - 1)\<close>: \<open>is\<close> are the indices still
  to visit, \<open>acc\<close> is \<^verbatim>\<open>analysis['pacing_analysis']\<close>.
\<close>

fun pacing_loop :: "int list \<Rightarrow> nat list \<Rightarrow> string list \<Rightarrow> py_error + string list" where
  "pacing_loop cs [] acc = Inr acc"
| "pacing_loop cs (i # is) acc =
    (case py_index cs (i + 1) of
       Inl e \<Rightarrow> Inl e
     | Inr b \<Rightarrow>
        (case py_index cs i of
           Inl e \<Rightarrow> Inl e
         | Inr a \<Rightarrow>
            (let gap = b - a in
             if gap > 3 then pacing_loop cs is (acc @ [gap_message a b])
             else pacing_loop cs is acc)))"

definition analyze_story_structure ::
  "character list \<Rightarrow> story_arc list \<Rightarrow> milestone list \<Rightarrow> py_error + analysis" where
  "analyze_story_structure chars story_arcs milestones =
    (let an = \<lparr>character_count = length chars, arc_count = length story_arcs,
               milestone_count = length milestones, estimated_length = 0,
               character_roles = [], pacing_analysis = []\<rparr>;
         an = an\<lparr>character_roles := foldl count_role (character_roles an) chars\<rparr>
     in case (if milestones \<noteq> [] then py_max (map milestone.chapter milestones)
              else if story_arcs \<noteq> [] then py_max (map end_chapter story_arcs)
              else Inr (estimated_length an)) of
          Inl e \<Rightarrow> Inl e
        | Inr len \<Rightarrow>
           (let an = an\<lparr>estimated_length := len\<rparr> in
            if milestones \<noteq> [] then
              (let milestone_chapters = sort (map milestone.chapter milestones) in
               case pacing_loop milestone_chapters
                      (py_range (int (length milestone_chapters) - 1)) (pacing_analysis an) of
                 Inl e \<Rightarrow> Inl e
               | Inr gaps \<Rightarrow> Inr (an\<lparr>pacing_analysis := gaps\<rparr>))
            else Inr an))"

section \<open>Story validation\<close>

text \<open>
  The body of the loop filling \<^verbatim>\<open>covered_chapters\<close>: \<^verbatim>\<open>set.update\<close> adds every element of
  \<^verbatim>\<open>range(start, end + 1)\<close> to the set.
\<close>

definition cover_arc :: "int set \<Rightarrow> story_arc \<Rightarrow> int set" where
  "cover_arc covered arc =
     covered \<union> set (py_range_from (start_chapter arc) (end_chapter arc + 1))"

definition validate_story_structure ::
  "character list \<Rightarrow> story_arc list \<Rightarrow> milestone list \<Rightarrow> py_error + string list" where
  "validate_story_structure chars story_arcs milestones =
    (let warnings = [];
         main_chars = filter (\<lambda>c. role c = ''Main Character'') chars;
         warnings =
           (if length main_chars = 0
            then warnings @ [''Consider adding a Main Character to your story.'']
            else if length main_chars > 3
            then warnings @
              [''You have many Main Characters - consider if some should be Supporting characters.'']
            else warnings)
     in case (if story_arcs \<noteq> [] then
                (case (if story_arcs \<noteq> [] then py_max (map end_chapter story_arcs) else Inr 0) of
                   Inl e \<Rightarrow> Inl e
                 | Inr total_chapters \<Rightarrow>
                    (let covered_chapters = foldl cover_arc {} story_arcs in
                     if int (card covered_chapters) < total_chapters
                     then Inr (warnings @ [''Some chapters may not be covered by any story arc.''])
                     else Inr warnings))
              else Inr warnings) of
          Inl e \<Rightarrow> Inl e
        | Inr warnings \<Rightarrow>
           (if milestones \<noteq> [] \<and> length milestones > 0 then
              (let milestone_impacts = map impact milestones;
                   warnings =
                     (if count_list milestone_impacts ''Critical'' > 3
                      then warnings @
                        [''You have many Critical milestones - consider varying the impact levels.'']
                      else warnings);
                   warnings =
                     (if ''High'' \<notin> set milestone_impacts \<and> ''Critical'' \<notin> set milestone_impacts
                      then warnings @
                        [''Consider adding some High or Critical impact milestones for dramatic tension.'']
                      else warnings)
               in Inr warnings)
            else Inr warnings))"

section \<open>Record factories\<close>

text \<open>
  The three factories copy their arguments into a dictionary and add the creation time
  (a parameter is primed where its name is that of a field).
  \<^verbatim>\<open>datetime.now().isoformat()\<close> reads the clock: its result is the parameter \<open>now\<close>.
\<close>

definition create_character ::
  "string \<Rightarrow> string \<Rightarrow> string \<Rightarrow> int \<Rightarrow> string \<Rightarrow> string \<Rightarrow> string \<Rightarrow> character" where
  "create_character now name' role' age' personality' background' goals' =
    \<lparr>character.name = name', role = role', age = age', personality = personality',
     background = background', goals = goals', created_at = now\<rparr>"

definition create_story_arc ::
  "string \<Rightarrow> string \<Rightarrow> string \<Rightarrow> int \<Rightarrow> int \<Rightarrow> string \<Rightarrow> string list \<Rightarrow> story_arc" where
  "create_story_arc now name' description' start_chapter' end_chapter' themes' characters' =
    \<lparr>story_arc.name = name', description = description', start_chapter = start_chapter',
     end_chapter = end_chapter', themes = themes', characters = characters', created_at = now\<rparr>"

definition create_milestone ::
  "string \<Rightarrow> string \<Rightarrow> string \<Rightarrow> int \<Rightarrow> string \<Rightarrow> string \<Rightarrow> string option \<Rightarrow> milestone" where
  "create_milestone now name' description' chapter' milestone_type impact' related_arc' =
    \<lparr>milestone.name = name', description = description', chapter = chapter',
     type = milestone_type, impact = impact', related_arc = related_arc', created_at = now\<rparr>"

section \<open>Export\<close>

text \<open>The dictionary \<^verbatim>\<open>export_data\<close> assembled by \<^verbatim>\<open>export_script_format\<close>.\<close>

record export_data =
  story_concept :: string
  characters :: "character list"
  story_arcs :: "story_arc list"
  milestones :: "milestone list"
  dialogue_scenes :: "dialogue_scene list"
  export_date :: string

subsection \<open>Markdown\<close>

text \<open>
  \<^verbatim>\<open>md_content\<close> is a local list of lines, extended by \<^verbatim>\<open>append\<close>. Every block of
  \<^verbatim>\<open>generate_markdown_export\<close> is a function from the list before the block to the list after
  it, and every \<^verbatim>\<open>for\<close> loop is a left fold of its body.
\<close>

definition md_title :: "export_data \<Rightarrow> string list" where
  "md_title data =
    (let md_content = [];
         md_content = md_content @ [''# Visual Novel Script''];
         md_content = md_content @ [''\<newline>**Export Date:** '' @ export_date data];
         md_content = md_content @ [''\<newline>## Story Concept''];
         md_content = md_content @ [''\<newline>'' @ story_concept data]
     in md_content)"

definition md_character :: "string list \<Rightarrow> character \<Rightarrow> string list" where
  "md_character md_content char =
    (let md_content = md_content @
           [''\<newline>### '' @ character.name char @ '' ('' @ role char @ '')''];
         md_content = md_content @ [''- **Age:** '' @ str_int (age char)];
         md_content = md_content @ [''- **Personality:** '' @ personality char];
         md_content = md_content @ [''- **Background:** '' @ background char];
         md_content = md_content @ [''- **Goals:** '' @ goals char]
     in md_content)"

definition md_characters :: "character list \<Rightarrow> string list \<Rightarrow> string list" where
  "md_characters chars md_content =
    (if chars \<noteq> [] then foldl md_character (md_content @ [''\<newline>## Characters'']) chars
     else md_content)"

definition md_arc :: "string list \<Rightarrow> story_arc \<Rightarrow> string list" where
  "md_arc md_content arc =
    (let md_content = md_content @ [''\<newline>### '' @ story_arc.name arc];
         md_content = md_content @
           [''**Chapters:** '' @ str_int (start_chapter arc) @ '' - '' @ str_int (end_chapter arc)];
         md_content = md_content @ [''**Description:** '' @ story_arc.description arc];
         md_content = md_content @ [''**Themes:** '' @ themes arc]
     in if story_arc.characters arc \<noteq> []
        then md_content @ [''**Characters:** '' @ join '', '' (story_arc.characters arc)]
        else md_content)"

definition md_arcs :: "story_arc list \<Rightarrow> string list \<Rightarrow> string list" where
  "md_arcs arcs md_content =
    (if arcs \<noteq> [] then foldl md_arc (md_content @ [''\<newline>## Story Arcs'']) arcs
     else md_content)"

text \<open>
  The truth value of \<^verbatim>\<open>milestone['related_arc']\<close>: \<^verbatim>\<open>None\<close> and the empty string are false.
\<close>

definition truthy :: "string option \<Rightarrow> bool" where
  "truthy x = (case x of None \<Rightarrow> False | Some s \<Rightarrow> s \<noteq> [])"

definition md_milestone :: "string list \<Rightarrow> milestone \<Rightarrow> string list" where
  "md_milestone md_content milestone =
    (let md_content = md_content @
           [''\<newline>### Chapter '' @ str_int (milestone.chapter milestone) @ '': '' @
            milestone.name milestone];
         md_content = md_content @ [''**Type:** '' @ type milestone];
         md_content = md_content @ [''**Impact:** '' @ impact milestone];
         md_content = md_content @ [''**Description:** '' @ milestone.description milestone]
     in if truthy (related_arc milestone)
        then md_content @ [''**Related Arc:** '' @ the (related_arc milestone)]
        else md_content)"

text \<open>
  \<^verbatim>\<open>sorted(xs, key=f)\<close> is a stable sort into a new list; so is \<^const>\<open>sort_key\<close>, which
  inserts each element in front of the elements with an equal key that followed it.
\<close>

definition md_milestones :: "milestone list \<Rightarrow> string list \<Rightarrow> string list" where
  "md_milestones ms md_content =
    (if ms \<noteq> [] then
       (let md_content = md_content @ [''\<newline>## Story Milestones''];
            sorted_milestones = sort_key milestone.chapter ms
        in foldl md_milestone md_content sorted_milestones)
     else md_content)"

text \<open>\<^verbatim>\<open>enumerate(xs, start)\<close>.\<close>

definition py_enumerate :: "int \<Rightarrow> 'a list \<Rightarrow> (int \<times> 'a) list" where
  "py_enumerate start xs = zip (map (\<lambda>k. start + int k) [0..<length xs]) xs"

definition md_branch :: "string list \<Rightarrow> int \<times> string \<Rightarrow> string list" where
  "md_branch md_content ib = md_content @ [str_int (fst ib) @ ''. '' @ snd ib]"

definition md_scene :: "string list \<Rightarrow> dialogue_scene \<Rightarrow> string list" where
  "md_scene md_content scene =
    (let md_content = md_content @
           [''\<newline>### '' @ dialogue_scene.name scene @ '' (Chapter '' @
            str_int (dialogue_scene.chapter scene) @ '')''];
         md_content = md_content @
           [''**Characters:** '' @ join '', '' (dialogue_scene.characters scene)];
         md_content = md_content @ [''**Dialogue:** '' @ dialogue scene]
     in if branches scene \<noteq> []
        then foldl md_branch (md_content @ [''**Response Options:**''])
               (py_enumerate 1 (branches scene))
        else md_content)"

definition md_scenes :: "dialogue_scene list \<Rightarrow> string list \<Rightarrow> string list" where
  "md_scenes scenes md_content =
    (if scenes \<noteq> [] then foldl md_scene (md_content @ [''\<newline>## Dialogue Scenes'']) scenes
     else md_content)"

text \<open>The list \<^verbatim>\<open>md_content\<close> at the end of \<^verbatim>\<open>generate_markdown_export\<close>.\<close>

definition md_content :: "export_data \<Rightarrow> string list" where
  "md_content data =
    md_scenes (dialogue_scenes data)
      (md_milestones (milestones data)
        (md_arcs (story_arcs data)
          (md_characters (export_data.characters data) (md_title data))))"

definition generate_markdown_export :: "export_data \<Rightarrow> string" where
  "generate_markdown_export data = join ''\<newline>'' (md_content data)"

subsection \<open>CSV summary\<close>

text \<open>The two columns of \<^verbatim>\<open>summary_data\<close>.\<close>

definition summary_metric :: "string list" where
  "summary_metric =
    [''Total Characters'', ''Total Story Arcs'', ''Total Milestones'', ''Total Dialogue Scenes'',
     ''Estimated Chapters'', ''Main Characters'', ''Supporting Characters'']"

definition summary_count :: "export_data \<Rightarrow> py_error + int list" where
  "summary_count data =
    (case (if milestones data \<noteq> []
           then py_max (map milestone.chapter (milestones data) @ [0]) else Inr 0) of
       Inl e \<Rightarrow> Inl e
     | Inr estimated \<Rightarrow>
        Inr [int (length (export_data.characters data)),
             int (length (story_arcs data)),
             int (length (milestones data)),
             int (length (dialogue_scenes data)),
             estimated,
             int (length (filter (\<lambda>c. role c = ''Main Character'')
                           (export_data.characters data))),
             int (length (filter (\<lambda>c. role c \<notin> set [''Main Character'', ''Love Interest''])
                           (export_data.characters data)))])"

text \<open>
  \<^verbatim>\<open>pd.DataFrame({'Metric': ..., 'Count': ...}).to_csv(index=False)\<close> for a column of strings
  that need no quoting (no comma, quote or line break) and a column of integers of the same
  length: a line with the two column names, then one line per row, every line ended by the
  line terminator. pandas is not part of the repository and its line terminator is that
  of the platform (\<^verbatim>\<open>os.linesep\<close>): it is the parameter \<open>linesep\<close>.
\<close>

definition to_csv :: "string \<Rightarrow> string \<times> string list \<Rightarrow> string \<times> int list \<Rightarrow> string" where
  "to_csv linesep col1 col2 =
    concat (map (\<lambda>row. join '','' row @ linesep)
      ([fst col1, fst col2] # map (\<lambda>(m, c). [m, str_int c]) (zip (snd col1) (snd col2))))"

definition generate_csv_summary :: "string \<Rightarrow> export_data \<Rightarrow> py_error + string" where
  "generate_csv_summary linesep data =
    (case summary_count data of
       Inl e \<Rightarrow> Inl e
     | Inr counts \<Rightarrow> Inr (to_csv linesep (''Metric'', summary_metric) (''Count'', counts)))"

subsection \<open>JSON\<close>

text \<open>
  The values \<^verbatim>\<open>json.dumps\<close> is applied to and \<^verbatim>\<open>json.loads\<close> returns: \<^verbatim>\<open>None\<close>, booleans,
  integers, strings, lists, and dictionaries with string keys in insertion order.
\<close>

datatype json =
  JNull
| JBool bool
| JInt int
| JString string
| JArray "json list"
| JObject "(string \<times> json) list"

text \<open>
  \<^verbatim>\<open>py_encode_basestring_ascii\<close> of the \<^verbatim>\<open>json\<close> module: backslash, double quote and the five
  named control characters have two-character escapes, every other character outside
  the range from space to tilde is written as \<^verbatim>\<open>\uXXXX\<close> with four lower-case hexadecimal
  digits.
\<close>

definition hex_char :: "nat \<Rightarrow> char" where
  "hex_char d = ''0123456789abcdef'' ! d"

definition hex4 :: "nat \<Rightarrow> string" where
  "hex4 n = [hex_char (n div 4096 mod 16), hex_char (n div 256 mod 16),
             hex_char (n div 16 mod 16), hex_char (n mod 16)]"

definition escape_char :: "char \<Rightarrow> string" where
  "escape_char c =
    (if c = CHR 0x5C then [CHR 0x5C, CHR 0x5C]
     else if c = CHR 0x22 then [CHR 0x5C, CHR 0x22]
     else if c = CHR 0x08 then [CHR 0x5C, CHR ''b'']
     else if c = CHR 0x0C then [CHR 0x5C, CHR ''f'']
     else if c = CHR 0x0A then [CHR 0x5C, CHR ''n'']
     else if c = CHR 0x0D then [CHR 0x5C, CHR ''r'']
     else if c = CHR 0x09 then [CHR 0x5C, CHR ''t'']
     else if of_char c < (32::nat) \<or> of_char c > (126::nat)
     then [CHR 0x5C, CHR ''u''] @ hex4 (of_char c)
     else [c])"

definition encode_basestring_ascii :: "string \<Rightarrow> string" where
  "encode_basestring_ascii s = [CHR 0x22] @ concat (map escape_char s) @ [CHR 0x22]"

text \<open>
  \<^verbatim>\<open>_iterencode\<close> with \<^verbatim>\<open>indent=2\<close>, the item separator \<^verbatim>\<open>','\<close> and the key separator
  \<^verbatim>\<open>': '\<close>; \<open>lvl\<close> is \<^verbatim>\<open>_current_indent_level\<close>.
\<close>

definition newline_indent :: "nat \<Rightarrow> string" where
  "newline_indent lvl = CHR 0x0A # replicate (2 * lvl) CHR '' ''"

fun iterencode :: "nat \<Rightarrow> json \<Rightarrow> string" where
  "iterencode lvl JNull = ''null''"
| "iterencode lvl (JBool b) = (if b then ''true'' else ''false'')"
| "iterencode lvl (JInt i) = str_int i"
| "iterencode lvl (JString s) = encode_basestring_ascii s"
| "iterencode lvl (JArray vs) =
    (if vs = [] then ''[]''
     else ''['' @ newline_indent (lvl + 1) @
          join ('','' @ newline_indent (lvl + 1)) (map (iterencode (lvl + 1)) vs) @
          newline_indent lvl @ '']'')"
| "iterencode lvl (JObject kvs) =
    (if kvs = [] then ''{}''
     else ''{'' @ newline_indent (lvl + 1) @
          join ('','' @ newline_indent (lvl + 1))
            (map (\<lambda>kv. encode_basestring_ascii (fst kv) @ '': '' @ iterencode (lvl + 1) (snd kv)) kvs) @
          newline_indent lvl @ ''}'')"

definition json_dumps :: "json \<Rightarrow> string" where
  "json_dumps obj = iterencode 0 obj"

text \<open>The dictionaries as JSON values, keys in the order of the dictionary literals.\<close>

definition json_of_character :: "character \<Rightarrow> json" where
  "json_of_character c =
    JObject [(''name'', JString (character.name c)), (''role'', JString (role c)),
             (''age'', JInt (age c)), (''personality'', JString (personality c)),
             (''background'', JString (background c)), (''goals'', JString (goals c)),
             (''created_at'', JString (character.created_at c))]"

definition json_of_story_arc :: "story_arc \<Rightarrow> json" where
  "json_of_story_arc a =
    JObject [(''name'', JString (story_arc.name a)),
             (''description'', JString (story_arc.description a)),
             (''start_chapter'', JInt (start_chapter a)), (''end_chapter'', JInt (end_chapter a)),
             (''themes'', JString (themes a)),
             (''characters'', JArray (map JString (story_arc.characters a))),
             (''created_at'', JString (story_arc.created_at a))]"

definition json_of_milestone :: "milestone \<Rightarrow> json" where
  "json_of_milestone m =
    JObject [(''name'', JString (milestone.name m)),
             (''description'', JString (milestone.description m)),
             (''chapter'', JInt (milestone.chapter m)), (''type'', JString (type m)),
             (''impact'', JString (impact m)),
             (''related_arc'', (case related_arc m of None \<Rightarrow> JNull | Some a \<Rightarrow> JString a)),
             (''created_at'', JString (milestone.created_at m))]"

definition json_of_dialogue_scene :: "dialogue_scene \<Rightarrow> json" where
  "json_of_dialogue_scene s =
    JObject [(''name'', JString (dialogue_scene.name s)),
             (''chapter'', JInt (dialogue_scene.chapter s)),
             (''characters'', JArray (map JString (dialogue_scene.characters s))),
             (''dialogue'', JString (dialogue s)),
             (''branches'', JArray (map JString (branches s)))]"

definition json_of_export_data :: "export_data \<Rightarrow> json" where
  "json_of_export_data data =
    JObject [(''story_concept'', JString (story_concept data)),
             (''characters'', JArray (map json_of_character (export_data.characters data))),
             (''story_arcs'', JArray (map json_of_story_arc (story_arcs data))),
             (''milestones'', JArray (map json_of_milestone (milestones data))),
             (''dialogue_scenes'', JArray (map json_of_dialogue_scene (dialogue_scenes data))),
             (''export_date'', JString (export_date data))]"

subsection \<open>The export entry point\<close>

text \<open>
  \<^verbatim>\<open>export_script_format\<close>, with the clock reading \<open>now\<close> and the platform's line
  terminator \<open>linesep\<close> as parameters.
\<close>

definition export_script_format ::
  "string \<Rightarrow> string \<Rightarrow> string \<Rightarrow> character list \<Rightarrow> story_arc list \<Rightarrow> milestone list \<Rightarrow>
   dialogue_scene list \<Rightarrow> string \<Rightarrow> py_error + string" where
  "export_script_format now linesep story_concept' characters' story_arcs' milestones'
     dialogue_scenes' format_type =
    (let export_data =
           \<lparr>story_concept = story_concept', characters = characters',
            story_arcs = story_arcs', milestones = milestones',
            dialogue_scenes = dialogue_scenes', export_date = now\<rparr>
     in if format_type = ''JSON'' then Inr (json_dumps (json_of_export_data export_data))
        else if format_type = ''Markdown'' then Inr (generate_markdown_export export_data)
        else if format_type = ''CSV Summary'' then generate_csv_summary linesep export_data
        else Inr (json_dumps (json_of_export_data export_data)))"


section \<open>Auxiliary notions and example inputs\<close>

text \<open>The pairs of neighbours of a list, in order.\<close>

definition adjacent_pairs :: "'a list \<Rightarrow> ('a \<times> 'a) list" where
  "adjacent_pairs xs = zip xs (tl xs)"

text \<open>Records built by the factories, used as concrete inputs.\<close>

definition ava :: character where
  "ava = create_character ''2024-01-01T00:00:00'' ''Ava'' ''Main Character'' 17 [] [] []"

definition reveal :: milestone where
  "reveal = create_milestone ''2024-01-01T00:00:00'' ''Reveal'' [] 5 ''Plot Point'' ''High'' None"

definition milestone_at :: "int \<Rightarrow> milestone" where
  "milestone_at c = create_milestone ''2024-01-01T00:00:00'' ''Event'' [] c ''Plot Point'' ''Low'' None"

definition arc_over :: "int \<Rightarrow> int \<Rightarrow> story_arc" where
  "arc_over s e = create_story_arc ''2024-01-01T00:00:00'' ''Arc'' [] s e [] []"

text \<open>Export bundles used as concrete inputs.\<close>

definition ava_reveal_data :: export_data where
  "ava_reveal_data =
    \<lparr>story_concept = ''A story'', characters = [ava], story_arcs = [], milestones = [reveal],
     dialogue_scenes = [], export_date = ''2024-01-02T00:00:00''\<rparr>"

definition negative_chapter_data :: export_data where
  "negative_chapter_data =
    \<lparr>story_concept = [], characters = [], story_arcs = [], milestones = [milestone_at (- 1)],
     dialogue_scenes = [], export_date = ''2024-01-02T00:00:00''\<rparr>"

definition finale :: milestone where
  "finale = create_milestone ''2024-01-01T00:00:00'' ''Finale'' ''The end'' 7 ''Climax'' ''Critical''
     (Some ''Main Arc'')"

definition two_milestones_data :: export_data where
  "two_milestones_data =
    \<lparr>story_concept = ''A story'', characters = [], story_arcs = [], milestones = [finale, reveal],
     dialogue_scenes = [], export_date = ''2024-01-02T00:00:00''\<rparr>"

subsection \<open>JSON decoding\<close>

text \<open>
  \<^verbatim>\<open>json.loads\<close> is part of the Python standard library, not of the repository. The model
  follows \<^verbatim>\<open>json/decoder.py\<close> and \<^verbatim>\<open>json/scanner.py\<close> of CPython: \<^verbatim>\<open>scanstring\<close>,
  \<^verbatim>\<open>scan_once\<close>, \<^verbatim>\<open>JSONArray\<close>, \<^verbatim>\<open>JSONObject\<close> and \<^verbatim>\<open>decode\<close>. Two parts of the library
  are outside the model and are reported as \<open>Unsupported\<close>: numbers with a fraction or an
  exponent (\<^verbatim>\<open>float\<close>; so are \<^verbatim>\<open>NaN\<close> and \<^verbatim>\<open>Infinity\<close>), and \<^verbatim>\<open>\uXXXX\<close> escapes of code points
  from 256 on, which \<^typ>\<open>char\<close> does not have. The decoder recurses on nested values; the
  model counts the calls down from a bound \<open>fuel\<close> and reports \<open>OutOfFuel\<close> at zero.
\<close>

datatype json_error = JSONDecodeError | Unsupported | OutOfFuel

text \<open>\<^verbatim>\<open>WHITESPACE\<close>: blanks, tabs, line feeds and carriage returns.\<close>

definition is_ws :: "char \<Rightarrow> bool" where
  "is_ws c = (c = CHR '' '' \<or> c = CHR 0x09 \<or> c = CHR 0x0A \<or> c = CHR 0x0D)"

definition skip_ws :: "string \<Rightarrow> string" where
  "skip_ws s = dropWhile is_ws s"

text \<open>The value of a hexadecimal digit, in either case.\<close>

definition hex_value :: "char \<Rightarrow> nat option" where
  "hex_value c =
    (let n = (of_char c :: nat) in
     if 48 \<le> n \<and> n \<le> 57 then Some (n - 48)
     else if 97 \<le> n \<and> n \<le> 102 then Some (n - 87)
     else if 65 \<le> n \<and> n \<le> 70 then Some (n - 55)
     else None)"

text \<open>\<^verbatim>\<open>_decode_uXXXX\<close>: exactly four hexadecimal digits.\<close>

definition decode_uXXXX :: "string \<Rightarrow> nat option" where
  "decode_uXXXX esc =
    (case map hex_value esc of
       [Some a, Some b, Some c, Some d] \<Rightarrow> Some (((a * 16 + b) * 16 + c) * 16 + d)
     | _ \<Rightarrow> None)"

text \<open>The table \<^verbatim>\<open>BACKSLASH\<close>.\<close>

definition backslash :: "char \<Rightarrow> char option" where
  "backslash esc =
    (if esc = CHR 0x22 then Some (CHR 0x22)
     else if esc = CHR 0x5C then Some (CHR 0x5C)
     else if esc = CHR ''/'' then Some (CHR ''/'')
     else if esc = CHR ''b'' then Some (CHR 0x08)
     else if esc = CHR ''f'' then Some (CHR 0x0C)
     else if esc = CHR ''n'' then Some (CHR 0x0A)
     else if esc = CHR ''r'' then Some (CHR 0x0D)
     else if esc = CHR ''t'' then Some (CHR 0x09)
     else None)"

text \<open>
  \<^verbatim>\<open>scanstring\<close> in strict mode, from the character after the opening quote: \<open>chunks\<close> is
  the text decoded so far; the result is the decoded string and the text after the
  closing quote.
\<close>

fun scanstring :: "string \<Rightarrow> string \<Rightarrow> json_error + (string \<times> string)" where
  "scanstring chunks [] = Inl JSONDecodeError"
| "scanstring chunks (c # cs) =
    (if c = CHR 0x22 then Inr (chunks, cs)
     else if c = CHR 0x5C then
       (case cs of
          [] \<Rightarrow> Inl JSONDecodeError
        | esc # rest \<Rightarrow>
           if esc \<noteq> CHR ''u'' then
             (case backslash esc of
                None \<Rightarrow> Inl JSONDecodeError
              | Some ch \<Rightarrow> scanstring (chunks @ [ch]) rest)
           else
             (case decode_uXXXX (take 4 rest) of
                None \<Rightarrow> Inl JSONDecodeError
              | Some uni \<Rightarrow>
                 if uni < 256 then scanstring (chunks @ [char_of uni]) (drop 4 rest)
                 else Inl Unsupported))
     else if (of_char c :: nat) < 32 then Inl JSONDecodeError
     else scanstring (chunks @ [c]) cs)"

text \<open>
  \<^verbatim>\<open>NUMBER_RE\<close> and the conversion of its match: an optional minus sign, then \<^verbatim>\<open>0\<close> or a
  digit from 1 to 9 followed by digits; a fraction (a point and a digit) or an exponent
  after it makes the number a \<^verbatim>\<open>float\<close>.
\<close>

definition is_digit :: "char \<Rightarrow> bool" where
  "is_digit c = (48 \<le> (of_char c :: nat) \<and> (of_char c :: nat) \<le> 57)"

definition int_of_digits :: "string \<Rightarrow> int" where
  "int_of_digits ds = foldl (\<lambda>a c. 10 * a + int (of_char c - 48)) 0 ds"

definition starts_fraction :: "string \<Rightarrow> bool" where
  "starts_fraction s =
    (case s of c # d # _ \<Rightarrow> c = CHR ''.'' \<and> is_digit d | _ \<Rightarrow> False)"

definition starts_exponent :: "string \<Rightarrow> bool" where
  "starts_exponent s =
    (case s of
       [] \<Rightarrow> False
     | c # cs \<Rightarrow>
        (c = CHR ''e'' \<or> c = CHR ''E'') \<and>
        (case cs of
           [] \<Rightarrow> False
         | d # ds \<Rightarrow>
            is_digit d \<or>
            ((d = CHR ''+'' \<or> d = CHR ''-'') \<and> (case ds of [] \<Rightarrow> False | e # _ \<Rightarrow> is_digit e))))"

definition scan_number :: "string \<Rightarrow> json_error + (json \<times> string)" where
  "scan_number s =
    (let negative = (s \<noteq> [] \<and> hd s = CHR ''-'');
         body = (if negative then tl s else s)
     in case body of
          [] \<Rightarrow> Inl JSONDecodeError
        | c # cs \<Rightarrow>
           if \<not> is_digit c then
             (if take 3 s = ''NaN'' \<or> take 8 s = ''Infinity'' \<or> take 9 s = ''-Infinity''
              then Inl Unsupported else Inl JSONDecodeError)
           else
             (let digits = (if c = CHR ''0'' then [c] else takeWhile is_digit body);
                  rest = drop (length digits) body
              in if starts_fraction rest \<or> starts_exponent rest then Inl Unsupported
                 else Inr (JInt ((if negative then - 1 else 1) * int_of_digits digits), rest)))"

text \<open>
  \<^verbatim>\<open>dict(pairs)\<close>: a later value for a key replaces the earlier one, the key keeps its
  first position.
\<close>

definition py_dict :: "(string \<times> json) list \<Rightarrow> (string \<times> json) list" where
  "py_dict pairs = foldl (\<lambda>d kv. AList.update (fst kv) (snd kv) d) [] pairs"

text \<open>
  \<^verbatim>\<open>scan_once\<close>, the loop of \<^verbatim>\<open>JSONArray\<close> (at the start of an element, \<open>values\<close> are the
  elements read so far) and the loop of \<^verbatim>\<open>JSONObject\<close> (at the quote that opens a key,
  \<open>pairs\<close> are the items read so far).
\<close>

fun scan_once :: "nat \<Rightarrow> string \<Rightarrow> json_error + (json \<times> string)"
  and parse_array :: "nat \<Rightarrow> json list \<Rightarrow> string \<Rightarrow> json_error + (json \<times> string)"
  and parse_object :: "nat \<Rightarrow> (string \<times> json) list \<Rightarrow> string \<Rightarrow> json_error + (json \<times> string)"
where
  "scan_once 0 s = Inl OutOfFuel"
| "scan_once (Suc fuel) s =
    (case s of
       [] \<Rightarrow> Inl JSONDecodeError
     | c # cs \<Rightarrow>
        if c = CHR 0x22 then
          (case scanstring [] cs of
             Inl e \<Rightarrow> Inl e
           | Inr (str, rest) \<Rightarrow> Inr (JString str, rest))
        else if c = CHR ''{'' then
          (case skip_ws cs of
             [] \<Rightarrow> Inl JSONDecodeError
           | d # ds \<Rightarrow>
              if d = CHR ''}'' then Inr (JObject [], ds) else parse_object fuel [] (d # ds))
        else if c = CHR ''['' then
          (case skip_ws cs of
             [] \<Rightarrow> Inl JSONDecodeError
           | d # ds \<Rightarrow>
              if d = CHR '']'' then Inr (JArray [], ds) else parse_array fuel [] (d # ds))
        else if take 4 s = ''null'' then Inr (JNull, drop 4 s)
        else if take 4 s = ''true'' then Inr (JBool True, drop 4 s)
        else if take 5 s = ''false'' then Inr (JBool False, drop 5 s)
        else scan_number s)"
| "parse_array 0 values s = Inl OutOfFuel"
| "parse_array (Suc fuel) values s =
    (case scan_once fuel s of
       Inl e \<Rightarrow> Inl e
     | Inr (v, rest) \<Rightarrow>
        (case skip_ws rest of
           [] \<Rightarrow> Inl JSONDecodeError
         | d # ds \<Rightarrow>
            if d = CHR '']'' then Inr (JArray (values @ [v]), ds)
            else if d = CHR '','' then parse_array fuel (values @ [v]) (skip_ws ds)
            else Inl JSONDecodeError))"
| "parse_object 0 pairs s = Inl OutOfFuel"
| "parse_object (Suc fuel) pairs s =
    (case s of
       [] \<Rightarrow> Inl JSONDecodeError
     | q # qs \<Rightarrow>
        if q \<noteq> CHR 0x22 then Inl JSONDecodeError
        else
          (case scanstring [] qs of
             Inl e \<Rightarrow> Inl e
           | Inr (key, rest) \<Rightarrow>
              (case skip_ws rest of
                 [] \<Rightarrow> Inl JSONDecodeError
               | d # ds \<Rightarrow>
                  if d \<noteq> CHR '':'' then Inl JSONDecodeError
                  else
                    (case scan_once fuel (skip_ws ds) of
                       Inl e \<Rightarrow> Inl e
                     | Inr (v, rest') \<Rightarrow>
                        (case skip_ws rest' of
                           [] \<Rightarrow> Inl JSONDecodeError
                         | d' # ds' \<Rightarrow>
                            if d' = CHR ''}'' then Inr (JObject (py_dict (pairs @ [(key, v)])), ds')
                            else if d' = CHR '','' then
                              parse_object fuel (pairs @ [(key, v)]) (skip_ws ds')
                            else Inl JSONDecodeError)))))"

text \<open>
  \<^verbatim>\<open>JSONDecoder.decode\<close>: white space, one value, white space, the end of the text. Every
  recursive call of the decoder is made on a shorter text, so the length of the text
  bounds their number.
\<close>

definition json_loads :: "string \<Rightarrow> json_error + json" where
  "json_loads s =
    (case scan_once (Suc (length s)) (skip_ws s) of
       Inl e \<Rightarrow> Inl e
     | Inr (obj, rest) \<Rightarrow> if skip_ws rest = [] then Inr obj else Inl JSONDecodeError)"

section \<open>Helper lemmas\<close>

lemma foldl_max_Max: "foldl max (x::int) xs = Max (set (x # xs))"
proof (induction xs arbitrary: x)
  case Nil
  show ?case by simp
next
  case (Cons y ys)
  have "foldl max x (y # ys) = foldl max (max x y) ys" by simp
  also have "\<dots> = Max (set (max x y # ys))" by (rule Cons.IH)
  also have "\<dots> = Max (set (x # y # ys))"
    by (cases ys) (simp_all add: max.assoc)
  finally show ?case .
qed

lemma py_max_Max: "xs \<noteq> [] \<Longrightarrow> py_max xs = Inr (Max (set xs))"
  by (cases xs) (simp_all add: foldl_max_Max del: foldl.simps set_simps)

section \<open>Dialogue options are the four base options\<close>

text \<open>
  C10. \<^verbatim>\<open>generate_dialogue_options\<close> returns exactly the four base options, which depend on
  the situation only: the result has length 4, two calls that differ in the character name,
  the personality traits (and even the lower-casing function) return the same list, and none
  of the three personality-specific options is in the result, since the slice to the first
  four elements cuts off whatever was appended.
\<close>

theorem generate_dialogue_options_base_only:
  "generate_dialogue_options lower character_name situation personality_traits =
     [''What should we do about '' @ situation @ ''?'',
      ''I think we need to consider our options here.'',
      ''This reminds me of something that happened before.'',
      ''Let's approach this carefully.'']
   \<and> length (generate_dialogue_options lower character_name situation personality_traits) = 4
   \<and> generate_dialogue_options lower character_name situation personality_traits =
       generate_dialogue_options lower' character_name' situation personality_traits'
   \<and> ''I know exactly what to do in this situation!'' \<notin>
       set (generate_dialogue_options lower character_name situation personality_traits)
   \<and> ''Um... maybe we should think about this more?'' \<notin>
       set (generate_dialogue_options lower character_name situation personality_traits)
   \<and> ''We need to take action now!'' \<notin>
       set (generate_dialogue_options lower character_name situation personality_traits)"
  by (simp add: generate_dialogue_options_def Let_def)

lemma pacing_loop_upt:
  "k \<le> length cs - 1 \<Longrightarrow>
   pacing_loop cs [k..<length cs - 1] acc =
     Inr (acc @ map (\<lambda>(a, b). gap_message a b)
                  (filter (\<lambda>(a, b). b - a > 3) (drop k (zip cs (tl cs)))))"
proof (induction "length cs - 1 - k" arbitrary: k acc)
  case 0
  then have "k = length cs - 1" by simp
  then show ?case by simp
next
  case (Suc d)
  then have lt: "k < length cs - 1" by simp
  let ?zs = "zip cs (tl cs)"
  have len: "length ?zs = length cs - 1" by simp
  have zk: "?zs ! k = (cs ! k, cs ! (k + 1))"
    using lt by (simp add: nth_tl)
  have dr: "drop k ?zs = (cs ! k, cs ! (k + 1)) # drop (Suc k) ?zs"
    using lt len zk by (metis Cons_nth_drop_Suc)
  have up: "[k..<length cs - 1] = k # [Suc k..<length cs - 1]"
    using lt by (simp add: upt_conv_Cons)
  have IH: "\<And>acc'. pacing_loop cs [Suc k..<length cs - 1] acc' =
     Inr (acc' @ map (\<lambda>(a, b). gap_message a b)
                  (filter (\<lambda>(a, b). b - a > 3) (drop (Suc k) ?zs)))"
    using Suc.hyps(1)[of "Suc k"] Suc.hyps(2) lt by simp
  show ?case
    unfolding up dr using lt IH by (simp add: py_index_def Let_def del: upt_Suc)
qed

lemma analyze_story_structure_result:
  "analyze_story_structure chars arcs ms =
     Inr \<lparr>character_count = length chars, arc_count = length arcs, milestone_count = length ms,
          estimated_length =
            (if ms \<noteq> [] then Max (set (map milestone.chapter ms))
             else if arcs \<noteq> [] then Max (set (map end_chapter arcs)) else 0),
          character_roles = foldl count_role [] chars,
          pacing_analysis =
            map (\<lambda>(a, b). gap_message a b)
              (filter (\<lambda>(a, b). b - a > 3) (adjacent_pairs (sort (map milestone.chapter ms))))\<rparr>"
proof (cases "ms = []")
  case True
  show ?thesis
  proof (cases "arcs = []")
    case True
    with \<open>ms = []\<close> show ?thesis
      by (simp add: analyze_story_structure_def adjacent_pairs_def)
  next
    case False
    with \<open>ms = []\<close> show ?thesis
      by (simp add: analyze_story_structure_def adjacent_pairs_def py_max_Max del: set_map)
  qed
next
  case False
  let ?cs = "sort (map milestone.chapter ms)"
  have "pacing_loop ?cs (py_range (int (length ?cs) - 1)) [] =
     Inr (map (\<lambda>(a, b). gap_message a b) (filter (\<lambda>(a, b). b - a > 3) (zip ?cs (tl ?cs))))"
    using pacing_loop_upt[of 0 ?cs "[]"] False
    by (simp add: py_range_def nat_diff_distrib' del: length_sort)
  with False show ?thesis
    by (simp add: analyze_story_structure_def adjacent_pairs_def py_max_Max Let_def
             del: set_map length_sort)
qed

lemma foldl_cover_arc:
  "foldl cover_arc S arcs = S \<union> (\<Union>a\<in>set arcs. {start_chapter a..end_chapter a})"
  by (induction arcs arbitrary: S) (auto simp: cover_arc_def py_range_from_def)

lemma validate_story_structure_result:
  "validate_story_structure chars arcs ms =
     Inr ((if length (filter (\<lambda>c. role c = ''Main Character'') chars) = 0
           then [''Consider adding a Main Character to your story.'']
           else if length (filter (\<lambda>c. role c = ''Main Character'') chars) > 3
           then [''You have many Main Characters - consider if some should be Supporting characters.'']
           else [])
        @ (if arcs \<noteq> [] \<and>
              int (card (\<Union>a\<in>set arcs. {start_chapter a..end_chapter a}))
                < Max (set (map end_chapter arcs))
           then [''Some chapters may not be covered by any story arc.''] else [])
        @ (if ms \<noteq> [] \<and> count_list (map impact ms) ''Critical'' > 3
           then [''You have many Critical milestones - consider varying the impact levels.'']
           else [])
        @ (if ms \<noteq> [] \<and> ''High'' \<notin> set (map impact ms) \<and> ''Critical'' \<notin> set (map impact ms)
           then [''Consider adding some High or Critical impact milestones for dramatic tension.'']
           else []))"
proof (cases "arcs = []")
  case True
  then show ?thesis
    by (simp add: validate_story_structure_def Let_def del: set_map)
next
  case False
  then show ?thesis
    by (simp add: validate_story_structure_def Let_def py_max_Max foldl_cover_arc del: set_map)
qed

lemma count_list_map_filter:
  "count_list (map f xs) v = length (filter (\<lambda>x. f x = v) xs)"
  by (induction xs) simp_all

lemma not_in_map_iff:
  "(a \<notin> set (map f xs) \<and> b \<notin> set (map f xs)) \<longleftrightarrow> (\<forall>x \<in> set xs. f x \<noteq> a \<and> f x \<noteq> b)"
  by auto

lemma str_int_2: "str_int 2 = ''2''"
  by (simp add: str_int_def str_nat.simps digit_char_def)

lemma str_int_10: "str_int 10 = ''10''"
  by (simp add: str_int_def str_nat.simps digit_char_def)

section \<open>Pacing gaps\<close>

text \<open>
  C5. \<^verbatim>\<open>analyze_story_structure\<close> returns, and its \<^verbatim>\<open>pacing_analysis\<close> holds, in order, one
  message for each pair of neighbours in the ascending list of milestone chapters whose
  difference is greater than 3, naming the two chapters, and nothing for the other pairs
  (a difference of exactly 3 is not reported). For the chapters 1, 2, 10 (in any order of
  the input) it is the single message about chapters 2 and 10; for 1, 2, 3 it is empty.
\<close>

theorem pacing_analysis_gaps:
  "\<exists>an. analyze_story_structure chars arcs ms = Inr an
     \<and> pacing_analysis an =
         map (\<lambda>(a, b). gap_message a b)
           (filter (\<lambda>(a, b). b - a > 3) (adjacent_pairs (sort (map milestone.chapter ms))))
     \<and> (sort (map milestone.chapter ms) = [1, 2, 10] \<longrightarrow>
          pacing_analysis an = [''Large gap between chapters 2 and 10''])
     \<and> (sort (map milestone.chapter ms) = [1, 2, 3] \<longrightarrow> pacing_analysis an = [])"
  unfolding analyze_story_structure_result
  by (simp add: adjacent_pairs_def gap_message_def str_int_2 str_int_10 del: sort_key_simps)

theorem pacing_analysis_gaps_witness:
  "(\<exists>an. analyze_story_structure [] [] [milestone_at 10, milestone_at 1, milestone_at 2] = Inr an
      \<and> pacing_analysis an = [''Large gap between chapters 2 and 10''])
   \<and> (\<exists>an. analyze_story_structure [] [] [milestone_at 3, milestone_at 1, milestone_at 2] = Inr an
      \<and> pacing_analysis an = [])"
proof -
  have s1: "sort (map milestone.chapter [milestone_at 10, milestone_at 1, milestone_at 2]) = [1, 2, 10]"
    by (simp add: milestone_at_def create_milestone_def)
  have s2: "sort (map milestone.chapter [milestone_at 3, milestone_at 1, milestone_at 2]) = [1, 2, 3]"
    by (simp add: milestone_at_def create_milestone_def)
  from s1 pacing_analysis_gaps [of "[]" "[]" "[milestone_at 10, milestone_at 1, milestone_at 2]"]
  have g1: "\<exists>an. analyze_story_structure [] [] [milestone_at 10, milestone_at 1, milestone_at 2] = Inr an
      \<and> pacing_analysis an = [''Large gap between chapters 2 and 10'']"
    by blast
  from s2 pacing_analysis_gaps [of "[]" "[]" "[milestone_at 3, milestone_at 1, milestone_at 2]"]
  have g2: "\<exists>an. analyze_story_structure [] [] [milestone_at 3, milestone_at 1, milestone_at 2] = Inr an
      \<and> pacing_analysis an = []"
    by blast
  from g1 g2 show ?thesis by (rule conjI)
qed

section \<open>Estimated length\<close>

text \<open>
  C6. \<^verbatim>\<open>analyze_story_structure\<close> returns (it raises nothing), and its \<^verbatim>\<open>estimated_length\<close>
  is the largest milestone chapter when there are milestones, otherwise the largest arc
  \<^verbatim>\<open>end_chapter\<close> when there are arcs, otherwise 0.
\<close>

theorem estimated_length_max:
  "\<exists>an. analyze_story_structure chars arcs ms = Inr an
     \<and> estimated_length an =
         (if ms \<noteq> [] then Max (milestone.chapter ` set ms)
          else if arcs \<noteq> [] then Max (end_chapter ` set arcs) else 0)"
  unfolding analyze_story_structure_result by simp

section \<open>Validation warnings\<close>

text \<open>
  C7. \<^verbatim>\<open>validate_story_structure\<close> returns a list of warnings in which the advice to add a
  Main Character is present exactly when no character has the role \<^verbatim>\<open>Main Character\<close>, the
  warning about many Main Characters exactly when more than 3 have it, and, when there are
  milestones, the warning about many Critical milestones exactly when more than 3
  milestones have the impact \<^verbatim>\<open>Critical\<close> and the advice to add High or Critical milestones
  exactly when no milestone has the impact \<^verbatim>\<open>High\<close> or \<^verbatim>\<open>Critical\<close>.
\<close>

theorem validate_character_and_milestone_warnings:
  "\<exists>ws. validate_story_structure chars arcs ms = Inr ws
     \<and> (''Consider adding a Main Character to your story.'' \<in> set ws
          \<longleftrightarrow> length (filter (\<lambda>c. role c = ''Main Character'') chars) = 0)
     \<and> (''You have many Main Characters - consider if some should be Supporting characters.'' \<in> set ws
          \<longleftrightarrow> length (filter (\<lambda>c. role c = ''Main Character'') chars) > 3)
     \<and> (ms \<noteq> [] \<longrightarrow>
          (''You have many Critical milestones - consider varying the impact levels.'' \<in> set ws
             \<longleftrightarrow> length (filter (\<lambda>m. impact m = ''Critical'') ms) > 3)
        \<and> (''Consider adding some High or Critical impact milestones for dramatic tension.'' \<in> set ws
             \<longleftrightarrow> (\<forall>m \<in> set ms. impact m \<noteq> ''High'' \<and> impact m \<noteq> ''Critical'')))"
  unfolding validate_story_structure_result
  by (simp add: count_list_map_filter not_in_map_iff del: set_map)

theorem validate_character_and_milestone_warnings_witness:
  "\<exists>ws. validate_story_structure [ava, ava, ava, ava] [] [milestone_at 1] = Inr ws
     \<and> ''Consider adding a Main Character to your story.'' \<notin> set ws
     \<and> ''You have many Main Characters - consider if some should be Supporting characters.'' \<in> set ws
     \<and> ''You have many Critical milestones - consider varying the impact levels.'' \<notin> set ws
     \<and> ''Consider adding some High or Critical impact milestones for dramatic tension.'' \<in> set ws"
  using validate_character_and_milestone_warnings [of "[ava, ava, ava, ava]" "[]" "[milestone_at 1]"]
  by (simp add: ava_def milestone_at_def create_character_def create_milestone_def)

text \<open>
  C8. The warning that some chapters may not be covered is among the warnings of
  \<^verbatim>\<open>validate_story_structure\<close> exactly when there is at least one arc and the number of
  chapters in the union of the ranges from \<^verbatim>\<open>start_chapter\<close> to \<^verbatim>\<open>end_chapter\<close> (both
  included) over all arcs is less than the largest \<^verbatim>\<open>end_chapter\<close>; with no arc it is absent.
\<close>

theorem validate_arc_coverage_warning:
  "\<exists>ws. validate_story_structure chars arcs ms = Inr ws
     \<and> (''Some chapters may not be covered by any story arc.'' \<in> set ws
          \<longleftrightarrow> arcs \<noteq> [] \<and>
              int (card (\<Union>a\<in>set arcs. {start_chapter a..end_chapter a}))
                < Max (end_chapter ` set arcs))"
  unfolding validate_story_structure_result
  by simp

theorem validate_arc_coverage_warning_witness:
  "(\<exists>ws. validate_story_structure [] [arc_over 5 6] [] = Inr ws
      \<and> ''Some chapters may not be covered by any story arc.'' \<in> set ws)
   \<and> (\<exists>ws. validate_story_structure [] [arc_over 1 6] [] = Inr ws
      \<and> ''Some chapters may not be covered by any story arc.'' \<notin> set ws)
   \<and> (\<exists>ws. validate_story_structure [] [] [] = Inr ws
      \<and> ''Some chapters may not be covered by any story arc.'' \<notin> set ws)"
  using validate_arc_coverage_warning [of "[]" "[arc_over 5 6]" "[]"]
        validate_arc_coverage_warning [of "[]" "[arc_over 1 6]" "[]"]
        validate_arc_coverage_warning [of "[]" "[]" "[]"]
  by (simp add: arc_over_def create_story_arc_def)

lemma str_int_small:
  "str_int 0 = ''0''" "str_int 1 = ''1''" "str_int 5 = ''5''" "str_int (- 1) = ''-1''"
  by (simp_all add: str_int_def str_nat.simps digit_char_def)

lemma summary_count_result:
  "summary_count data =
     Inr [int (length (export_data.characters data)), int (length (story_arcs data)),
          int (length (milestones data)), int (length (dialogue_scenes data)),
          (if milestones data = [] then 0
           else max 0 (Max (milestone.chapter ` set (milestones data)))),
          int (length (filter (\<lambda>c. role c = ''Main Character'') (export_data.characters data))),
          int (length (filter (\<lambda>c. role c \<noteq> ''Main Character'' \<and> role c \<noteq> ''Love Interest'')
                        (export_data.characters data)))]"
proof (cases "milestones data = []")
  case True
  then show ?thesis by (simp add: summary_count_def)
next
  case False
  then have "py_max (map milestone.chapter (milestones data) @ [0]) =
      Inr (max 0 (Max (milestone.chapter ` set (milestones data))))"
    by (simp add: py_max_Max)
  with False show ?thesis by (simp add: summary_count_def)
qed

section \<open>CSV summary\<close>

text \<open>
  C1 (amended). \<^verbatim>\<open>generate_csv_summary\<close>, which \<^verbatim>\<open>export_script_format\<close> calls for the format
  \<^verbatim>\<open>CSV Summary\<close>, returns the header line \<^verbatim>\<open>Metric,Count\<close> and seven rows in the order Total
  Characters, Total Story Arcs, Total Milestones, Total Dialogue Scenes, Estimated
  Chapters, Main Characters, Supporting Characters. The first four counts are the list
  lengths; Estimated Chapters is 0 for no milestone and otherwise the larger of 0 and the
  greatest milestone chapter (so the greatest chapter whenever that is not negative); Main
  Characters counts the role \<^verbatim>\<open>Main Character\<close>; Supporting Characters counts the roles other
  than \<^verbatim>\<open>Main Character\<close> and \<^verbatim>\<open>Love Interest\<close>.
\<close>

theorem csv_summary_rows:
  "generate_csv_summary linesep data =
     Inr (concat (map (\<lambda>(metric, count). metric @ '','' @ count @ linesep)
       [(''Metric'', ''Count''),
        (''Total Characters'', str_int (int (length (export_data.characters data)))),
        (''Total Story Arcs'', str_int (int (length (story_arcs data)))),
        (''Total Milestones'', str_int (int (length (milestones data)))),
        (''Total Dialogue Scenes'', str_int (int (length (dialogue_scenes data)))),
        (''Estimated Chapters'',
           str_int (if milestones data = [] then 0
                    else max 0 (Max (milestone.chapter ` set (milestones data))))),
        (''Main Characters'',
           str_int (int (length (filter (\<lambda>c. role c = ''Main Character'')
                                   (export_data.characters data))))),
        (''Supporting Characters'',
           str_int (int (length (filter (\<lambda>c. role c \<noteq> ''Main Character'' \<and> role c \<noteq> ''Love Interest'')
                                   (export_data.characters data)))))]))
   \<and> export_script_format now linesep (story_concept data) (export_data.characters data)
        (story_arcs data) (milestones data) (dialogue_scenes data) ''CSV Summary'' =
       generate_csv_summary linesep (data\<lparr>export_date := now\<rparr>)"
  by (simp add: generate_csv_summary_def summary_count_result to_csv_def summary_metric_def
        export_script_format_def)

text \<open>The example of the specification: one Main Character and one milestone in chapter 5.\<close>

theorem csv_summary_rows_witness:
  "generate_csv_summary ''\<newline>'' ava_reveal_data =
     Inr (''Metric,Count\<newline>Total Characters,1\<newline>Total Story Arcs,0\<newline>'' @
          ''Total Milestones,1\<newline>Total Dialogue Scenes,0\<newline>Estimated Chapters,5\<newline>'' @
          ''Main Characters,1\<newline>Supporting Characters,0\<newline>'')"
  using csv_summary_rows [of "''\<newline>''" ava_reveal_data]
  by (simp add: ava_reveal_data_def ava_def reveal_def create_character_def create_milestone_def
        str_int_small)

text \<open>
  With a single milestone in chapter \<open>-1\<close> the greatest chapter is \<open>-1\<close>, and the row reads
  \<^verbatim>\<open>Estimated Chapters,0\<close>: the appended 0 in the source is a lower bound of the maximum.
\<close>

theorem csv_estimated_chapters_counterexample:
  "milestones negative_chapter_data \<noteq> []
   \<and> Max (milestone.chapter ` set (milestones negative_chapter_data)) = - 1
   \<and> summary_count negative_chapter_data = Inr [0, 0, 1, 0, 0, 0, 0]
   \<and> generate_csv_summary ''\<newline>'' negative_chapter_data =
       Inr (''Metric,Count\<newline>Total Characters,0\<newline>Total Story Arcs,0\<newline>'' @
            ''Total Milestones,1\<newline>Total Dialogue Scenes,0\<newline>Estimated Chapters,0\<newline>'' @
            ''Main Characters,0\<newline>Supporting Characters,0\<newline>'')"
  by (simp add: negative_chapter_data_def milestone_at_def create_milestone_def
        generate_csv_summary_def summary_count_def to_csv_def summary_metric_def str_int_small)

section \<open>Unknown export formats\<close>

text \<open>
  C4. For a format that is none of \<^verbatim>\<open>JSON\<close>, \<^verbatim>\<open>Markdown\<close> and \<^verbatim>\<open>CSV Summary\<close>,
  \<^verbatim>\<open>export_script_format\<close> raises nothing and returns what it returns for \<^verbatim>\<open>JSON\<close> on the
  same inputs (and the same clock reading).
\<close>

theorem export_unknown_format_is_json:
  "format_type \<noteq> ''JSON'' \<Longrightarrow> format_type \<noteq> ''Markdown'' \<Longrightarrow> format_type \<noteq> ''CSV Summary'' \<Longrightarrow>
   export_script_format now linesep concept chars arcs ms scenes format_type =
     export_script_format now linesep concept chars arcs ms scenes ''JSON''
   \<and> (\<exists>text. export_script_format now linesep concept chars arcs ms scenes format_type = Inr text)"
  by (simp add: export_script_format_def)

theorem export_unknown_format_is_json_witness:
  "export_script_format ''2024-01-02T00:00:00'' ''\<newline>'' ''A story'' [ava] [] [reveal] [] ''XML'' =
     export_script_format ''2024-01-02T00:00:00'' ''\<newline>'' ''A story'' [ava] [] [reveal] [] ''JSON''
   \<and> (\<exists>text. export_script_format ''2024-01-02T00:00:00'' ''\<newline>'' ''A story'' [ava] [] [reveal] []
                ''XML'' = Inr text)"
proof -
  have h: "''XML'' \<noteq> ''JSON''" "''XML'' \<noteq> ''Markdown''" "''XML'' \<noteq> ''CSV Summary''"
    by simp_all
  show ?thesis by (rule export_unknown_format_is_json [OF h])
qed

lemma foldl_append_concat:
  "(\<And>acc x. f acc x = acc @ g x) \<Longrightarrow> foldl f acc xs = acc @ concat (map g xs)"
  by (induction xs arbitrary: acc) simp_all

lemma map_insort_key: "map f (insort_key f x ys) = insort (f x) (map f ys)"
  by (induction ys) simp_all

lemma map_sort_key: "map f (sort_key f xs) = sort (map f xs)"
  by (induction xs) (simp_all add: map_insort_key)

lemma sort_key_perm_keys:
  "mset xs = mset ys \<Longrightarrow> map f (sort_key f xs) = map f (sort_key f ys)"
proof -
  assume "mset xs = mset ys"
  then have "mset (map f xs) = mset (map f ys)" by simp
  then have "sort (map f xs) = sort (map f ys)"
    by (intro properties_for_sort) simp_all
  then show ?thesis by (simp add: map_sort_key)
qed

lemma md_milestone_append:
  "md_milestone md m =
     md @ [''\<newline>### Chapter '' @ str_int (milestone.chapter m) @ '': '' @ milestone.name m,
           ''**Type:** '' @ type m, ''**Impact:** '' @ impact m,
           ''**Description:** '' @ milestone.description m]
        @ (case related_arc m of
             None \<Rightarrow> []
           | Some a \<Rightarrow> if a \<noteq> [] then [''**Related Arc:** '' @ a] else [])"
  by (simp add: md_milestone_def truthy_def Let_def split: option.split)

lemma md_branch_append: "md_branch md ib = md @ md_branch [] ib"
  by (simp add: md_branch_def)

lemma foldl_md_branch: "foldl md_branch md ibs = md @ foldl md_branch [] ibs"
proof -
  have c: "\<And>acc. foldl md_branch acc ibs = acc @ concat (map (md_branch []) ibs)"
    by (rule foldl_append_concat) (rule md_branch_append)
  show ?thesis by (simp add: c [of md] c [of "[]"])
qed

lemma md_scene_append: "md_scene md s = md @ md_scene [] s"
proof (cases "branches s = []")
  case True
  then show ?thesis by (simp add: md_scene_def Let_def)
next
  case False
  then show ?thesis
    by (simp add: md_scene_def Let_def foldl_md_branch [of "_ @ _"])
qed

lemma md_scenes_append: "md_scenes scs md = md @ md_scenes scs []"
proof -
  have c: "\<And>acc. foldl md_scene acc scs = acc @ concat (map (md_scene []) scs)"
    by (rule foldl_append_concat) (rule md_scene_append)
  show ?thesis
    by (simp add: md_scenes_def c [of "md @ _"] c [of "[_]"])
qed

lemma md_milestones_append:
  "md_milestones ms md =
     md @ (if ms = [] then []
           else ''\<newline>## Story Milestones'' #
                concat (map (\<lambda>m. [''\<newline>### Chapter '' @ str_int (milestone.chapter m) @ '': '' @
                                     milestone.name m,
                                   ''**Type:** '' @ type m, ''**Impact:** '' @ impact m,
                                   ''**Description:** '' @ milestone.description m]
                                  @ (case related_arc m of
                                       None \<Rightarrow> []
                                     | Some a \<Rightarrow> if a \<noteq> [] then [''**Related Arc:** '' @ a] else []))
                         (sort_key milestone.chapter ms)))"
proof -
  let ?entry = "\<lambda>m. [''\<newline>### Chapter '' @ str_int (milestone.chapter m) @ '': '' @
                                     milestone.name m,
                                   ''**Type:** '' @ type m, ''**Impact:** '' @ impact m,
                                   ''**Description:** '' @ milestone.description m]
                                  @ (case related_arc m of
                                       None \<Rightarrow> []
                                     | Some a \<Rightarrow> if a \<noteq> [] then [''**Related Arc:** '' @ a] else [])"
  have loop: "\<And>acc xs. foldl md_milestone acc xs = acc @ concat (map ?entry xs)"
    by (rule foldl_append_concat) (rule md_milestone_append)
  show ?thesis
    by (simp only: md_milestones_def Let_def loop) simp
qed

section \<open>Markdown export: milestones in chapter order\<close>

text \<open>
  C2. The lines of \<^verbatim>\<open>generate_markdown_export\<close> are the lines of the title, concept, character
  and arc blocks, then the milestone block, then the lines of the dialogue scenes. The
  milestone block is absent for an empty milestone list; otherwise it is the heading
  \<^verbatim>\<open>## Story Milestones\<close> followed by one entry per milestone, the entries in ascending order
  of chapter: the rendered list is sorted by chapter and is a rearrangement of the input,
  and two inputs that are rearrangements of each other are rendered with the same sequence
  of chapters. An entry has the chapter and name line, the type, impact and description
  lines, and a related-arc line only when \<^verbatim>\<open>related_arc\<close> is a non-empty string.
\<close>

theorem markdown_milestones_sorted:
  "md_content data =
     md_arcs (story_arcs data) (md_characters (export_data.characters data) (md_title data))
     @ (if milestones data = [] then []
        else ''\<newline>## Story Milestones'' #
             concat (map (\<lambda>m. [''\<newline>### Chapter '' @ str_int (milestone.chapter m) @ '': '' @
                                  milestone.name m,
                                ''**Type:** '' @ type m, ''**Impact:** '' @ impact m,
                                ''**Description:** '' @ milestone.description m]
                               @ (case related_arc m of
                                    None \<Rightarrow> []
                                  | Some a \<Rightarrow> if a \<noteq> [] then [''**Related Arc:** '' @ a] else []))
                      (sort_key milestone.chapter (milestones data))))
     @ md_scenes (dialogue_scenes data) []
   \<and> generate_markdown_export data = join ''\<newline>'' (md_content data)
   \<and> sorted (map milestone.chapter (sort_key milestone.chapter (milestones data)))
   \<and> mset (sort_key milestone.chapter (milestones data)) = mset (milestones data)
   \<and> (mset ms' = mset (milestones data) \<longrightarrow>
        map milestone.chapter (sort_key milestone.chapter ms') =
        map milestone.chapter (sort_key milestone.chapter (milestones data)))"
proof (intro conjI impI)
  show "md_content data =
     md_arcs (story_arcs data) (md_characters (export_data.characters data) (md_title data))
     @ (if milestones data = [] then []
        else ''\<newline>## Story Milestones'' #
             concat (map (\<lambda>m. [''\<newline>### Chapter '' @ str_int (milestone.chapter m) @ '': '' @
                                  milestone.name m,
                                ''**Type:** '' @ type m, ''**Impact:** '' @ impact m,
                                ''**Description:** '' @ milestone.description m]
                               @ (case related_arc m of
                                    None \<Rightarrow> []
                                  | Some a \<Rightarrow> if a \<noteq> [] then [''**Related Arc:** '' @ a] else []))
                      (sort_key milestone.chapter (milestones data))))
     @ md_scenes (dialogue_scenes data) []"
    unfolding md_content_def
    by (subst md_scenes_append, subst md_milestones_append) (rule append_assoc)
  show "generate_markdown_export data = join ''\<newline>'' (md_content data)"
    by (rule generate_markdown_export_def)
  show "sorted (map milestone.chapter (sort_key milestone.chapter (milestones data)))"
    by (rule sorted_sort_key)
  show "mset (sort_key milestone.chapter (milestones data)) = mset (milestones data)"
    by (rule mset_sort)
  show "map milestone.chapter (sort_key milestone.chapter ms') =
        map milestone.chapter (sort_key milestone.chapter (milestones data))"
    if "mset ms' = mset (milestones data)"
    using that by (rule sort_key_perm_keys)
qed

text \<open>Two milestones given in the order chapter 7, chapter 5 are rendered as 5, 7.\<close>

theorem markdown_milestones_sorted_witness:
  "md_content two_milestones_data =
     [''# Visual Novel Script'', ''\<newline>**Export Date:** 2024-01-02T00:00:00'',
      ''\<newline>## Story Concept'', ''\<newline>A story'',
      ''\<newline>## Story Milestones'',
      ''\<newline>### Chapter 5: Reveal'', ''**Type:** Plot Point'', ''**Impact:** High'',
      ''**Description:** '',
      ''\<newline>### Chapter 7: Finale'', ''**Type:** Climax'', ''**Impact:** Critical'',
      ''**Description:** The end'', ''**Related Arc:** Main Arc'']
   \<and> map milestone.chapter (sort_key milestone.chapter [reveal, finale]) =
       map milestone.chapter (sort_key milestone.chapter [finale, reveal])"
  using markdown_milestones_sorted [of two_milestones_data "[reveal, finale]"]
  by (simp add: two_milestones_data_def finale_def reveal_def create_milestone_def
        md_arcs_def md_characters_def md_title_def md_scenes_def str_int_small
        str_int_def str_nat.simps digit_char_def)

end
